theory Spec2Isabelle
  imports Complex_Main
begin

section \<open>Python and numpy values\<close>

text \<open>
  The grid of \<^verbatim>\<open>hyperion/grid/spherical_polar_grid.py\<close> computes with numpy arrays of
  floating-point numbers. Array elements are modelled as real numbers: the arithmetic of
  the source is the arithmetic of \<^typ>\<open>real\<close>, without rounding, overflow, NaN or
  infinities. \<^verbatim>\<open>np.log10\<close> is \<^term>\<open>log 10\<close>, \<^verbatim>\<open>10. ** x\<close> is \<^term>\<open>10 powr x\<close>.

  A numpy array is its shape and its elements in row-major order. The elements of a
  1-D array are its flat buffer, and \<^verbatim>\<open>len\<close> of a 1-D array is their number.
\<close>

datatype ndarray = NDArray (nd_shape: "nat list") (nd_flat: "real list")

definition ndim :: "ndarray \<Rightarrow> nat" where
  "ndim a = length (nd_shape a)"

definition array1 :: "real list \<Rightarrow> ndarray" where
  "array1 xs = NDArray [length xs] xs"

text \<open>
  The arguments of \<^verbatim>\<open>set_walls\<close> are dynamically typed: a list or a tuple (given here
  by the array that \<^verbatim>\<open>np.array\<close> makes of it, which has more than one dimension for a
  nested list), a numpy array, or anything else.
\<close>

datatype pyval = PyList ndarray | PyTuple ndarray | NdArray ndarray | PyOther

text \<open>\<^verbatim>\<open>if type(w) in [list, tuple]: w = np.array(w)\<close>\<close>

fun np_array_if_seq :: "pyval \<Rightarrow> pyval" where
  "np_array_if_seq (PyList a) = NdArray a"
| "np_array_if_seq (PyTuple a) = NdArray a"
| "np_array_if_seq v = v"

text \<open>
  Modelled from the spec: \<^verbatim>\<open>is_numpy_array\<close> of \<^verbatim>\<open>hyperion.util.functions\<close> is not
  part of the sources at hand; the inputs are "array or list-like", and the lists
  have been converted before the test.
\<close>

fun is_numpy_array :: "pyval \<Rightarrow> bool" where
  "is_numpy_array (NdArray a) = True"
| "is_numpy_array v = False"

fun py_ndim :: "pyval \<Rightarrow> nat option" where
  "py_ndim (NdArray a) = Some (ndim a)"
| "py_ndim v = None"

fun py_values :: "pyval \<Rightarrow> real list" where
  "py_values (NdArray a) = nd_flat a"
| "py_values v = []"

text \<open>
  Modelled from the spec: \<^verbatim>\<open>monotonically_increasing\<close> of \<^verbatim>\<open>hyperion.util.functions\<close>
  is not part of the sources at hand; the spec asks for "strictly monotonically
  increasing (no repeated or decreasing adjacent values)".
\<close>

fun monotonically_increasing :: "real list \<Rightarrow> bool" where
  "monotonically_increasing [] = True"
| "monotonically_increasing [x] = True"
| "monotonically_increasing (x # y # zs) = (x < y \<and> monotonically_increasing (y # zs))"

type_synonym arr3 = "real list list list"
type_synonym arr4 = "real list list list list"

text \<open>Elementwise operations of numpy on 3-D arrays of equal shape.\<close>

definition map3 :: "(real \<Rightarrow> real) \<Rightarrow> arr3 \<Rightarrow> arr3" where
  "map3 f a = map (map (map f)) a"

definition zip3 :: "(real \<Rightarrow> real \<Rightarrow> real) \<Rightarrow> arr3 \<Rightarrow> arr3 \<Rightarrow> arr3" where
  "zip3 f a b = map2 (map2 (map2 f)) a b"

text \<open>
  Modelled from the spec: \<^verbatim>\<open>meshgrid_nd\<close> of \<^verbatim>\<open>hyperion.util.meshgrid\<close> is not part of
  the sources at hand. A broadcast field is "a per-axis 1-D array expanded to a full 3-D
  field by outer-product replication across the other two axes", in the axis order
  (azimuthal, polar, radial) of the grid shape: the first result varies along the last
  axis, the third along the first.
\<close>

definition meshgrid_nd :: "real list \<Rightarrow> real list \<Rightarrow> real list \<Rightarrow> arr3 \<times> arr3 \<times> arr3" where
  "meshgrid_nd xs ys zs =
     (replicate (length zs) (replicate (length ys) xs),
      replicate (length zs) (map (\<lambda>y. replicate (length xs) y) ys),
      map (\<lambda>z. replicate (length ys) (replicate (length xs) z)) zs)"

datatype message = Msg string | Fmt string "nat list" "int list option"

datatype error =
    ValueError message
  | IndexError
  | KeyError string
  | AttributeError string
  | TypeError

text \<open>\<^verbatim>\<open>np.zeros((n, a, b, c))\<close>: numpy refuses a negative dimension.\<close>

definition np_zeros4 :: "nat \<Rightarrow> int \<Rightarrow> int \<Rightarrow> int \<Rightarrow> error + arr4" where
  "np_zeros4 n a b c =
     (if a < 0 \<or> b < 0 \<or> c < 0
      then Inl (ValueError (Msg ''negative dimensions are not allowed''))
      else Inr (replicate n (replicate (nat a) (replicate (nat b) (replicate (nat c) 0)))))"

section \<open>The grid\<close>

text \<open>
  A quantity is an array, a list or tuple of arrays, an external link of the
  container, or some other value.
\<close>

datatype quantity =
    QArray ndarray
  | QList "ndarray list"
  | QTuple "ndarray list"
  | ExternalLink
  | QOther

record grid =
  nr :: "int option"
  nt :: "int option"
  np :: "int option"
  shape :: "int list option"
  r_wall :: "real list option"
  t_wall :: "real list option"
  p_wall :: "real list option"
  r :: "real list option"
  t :: "real list option"
  p :: "real list option"
  gr :: "arr3 option"
  gt :: "arr3 option"
  gp :: "arr3 option"
  gw :: "arr3 option"
  gz :: "arr3 option"
  volumes :: "arr3 option"
  areas :: "arr4 option"
  widths :: "arr4 option"
  quantities :: "string \<rightharpoonup> quantity"

text \<open>\<^verbatim>\<open>__init__\<close> without arguments: every attribute is \<^verbatim>\<open>None\<close>, no quantity.\<close>

definition init :: grid where
  "init = \<lparr> nr = None, nt = None, np = None, shape = None,
            r_wall = None, t_wall = None, p_wall = None,
            r = None, t = None, p = None,
            gr = None, gt = None, gp = None, gw = None, gz = None,
            volumes = None, areas = None, widths = None,
            quantities = Map.empty \<rparr>"

subsection \<open>\<^verbatim>\<open>set_walls\<close>\<close>

text \<open>
  A method returns its outcome together with the state of the object when it returns
  or raises, so that what an exception leaves behind is part of the model.

  Lines 88 to 163: the broadcast fields, volumes, areas and widths. The slice
  assignments \<^verbatim>\<open>self.areas[n, :, :, :] = x\<close> replace plane \<open>n\<close>; the right-hand sides
  have the shape of a plane whenever \<^verbatim>\<open>np.zeros\<close> has not raised.
\<close>

definition set_walls_derived ::
  "grid \<Rightarrow> real list \<Rightarrow> real list \<Rightarrow> real list \<Rightarrow> real list \<Rightarrow> real list \<Rightarrow> real list
     \<Rightarrow> (error + unit) \<times> grid" where
  "set_walls_derived self rc tc pc rw tw pw =
     (let (g_r, g_t, g_p) = meshgrid_nd rc tc pc;
          self = self\<lparr>gr := Some g_r, gt := Some g_t, gp := Some g_p\<rparr>;
          self = self\<lparr>gz := Some (zip3 (*) g_r (map3 cos g_t))\<rparr>;
          self = self\<lparr>gw := Some (zip3 (*) g_r (map3 sin g_t))\<rparr>;
          (gr_wall_min, gt_wall_min, gp_wall_min) =
             meshgrid_nd (butlast rw) (butlast tw) (butlast pw);
          (gr_wall_max, gt_wall_max, gp_wall_max) =
             meshgrid_nd (tl rw) (tl tw) (tl pw);
          dr = zip3 (-) gr_wall_max gr_wall_min;
          dr2 = zip3 (-) (map3 (\<lambda>x. x ^ 2) gr_wall_max) (map3 (\<lambda>x. x ^ 2) gr_wall_min);
          dr3 = zip3 (-) (map3 (\<lambda>x. x ^ 3) gr_wall_max) (map3 (\<lambda>x. x ^ 3) gr_wall_min);
          dt = zip3 (-) gt_wall_max gt_wall_min;
          dcost = zip3 (-) (map3 cos gt_wall_min) (map3 cos gt_wall_max);
          dp = zip3 (-) gp_wall_max gp_wall_min;
          self = self\<lparr>volumes := Some (map3 (\<lambda>x. x / 3) (zip3 (*) (zip3 (*) dr3 dcost) dp))\<rparr>
      in case np_zeros4 6 (int (length pw) - 1) (int (length tw) - 1) (int (length rw) - 1) of
           Inl e \<Rightarrow> (Inl e, self)
         | Inr a \<Rightarrow>
            (let a = a[0 := zip3 (*) (zip3 (*) (map3 (\<lambda>x. x ^ 2) gr_wall_min) dcost) dp];
                 a = a[1 := zip3 (*) (zip3 (*) (map3 (\<lambda>x. x ^ 2) gr_wall_max) dcost) dp];
                 a = a[2 := zip3 (*) (zip3 (*) (map3 (\<lambda>x. 0.5 * x) dr2) (map3 sin gt_wall_min)) dp];
                 a = a[3 := zip3 (*) (zip3 (*) (map3 (\<lambda>x. 0.5 * x) dr2) (map3 sin gt_wall_max)) dp];
                 a = a[4 := zip3 (*) (map3 (\<lambda>x. 0.5 * x) dr2) dt];
                 a = a[5 := zip3 (*) (map3 (\<lambda>x. 0.5 * x) dr2) dt];
                 self = self\<lparr>areas := Some a\<rparr>
             in case np_zeros4 3 (int (length pw) - 1) (int (length tw) - 1) (int (length rw) - 1) of
                  Inl e \<Rightarrow> (Inl e, self)
                | Inr w \<Rightarrow>
                   (let w = w[0 := dr];
                        w = w[1 := zip3 (*) g_r dt];
                        w = w[2 := zip3 (*) (zip3 (*) g_r (map3 sin g_t)) dp]
                    in (Inr (), self\<lparr>widths := Some w\<rparr>))))"

text \<open>
  Lines 69 to 86: the cell counts, the shape, the walls and the cell centres.
  \<^verbatim>\<open>r_wall[0]\<close> raises IndexError on an empty array, and \<^verbatim>\<open>r_wall[1]\<close> on an array of
  one element; by then the counts, the shape, the walls and \<^verbatim>\<open>self.r\<close> are assigned.
\<close>

definition set_walls_centers ::
  "grid \<Rightarrow> real list \<Rightarrow> real list \<Rightarrow> real list \<Rightarrow> (error + unit) \<times> grid" where
  "set_walls_centers self rw tw pw =
     (let self = self\<lparr>nr := Some (int (length rw) - 1)\<rparr>;
          self = self\<lparr>nt := Some (int (length tw) - 1)\<rparr>;
          self = self\<lparr>np := Some (int (length pw) - 1)\<rparr>;
          self = self\<lparr>shape := Some [int (length pw) - 1, int (length tw) - 1, int (length rw) - 1]\<rparr>;
          self = self\<lparr>r_wall := Some rw, t_wall := Some tw, p_wall := Some pw\<rparr>;
          rc = map2 (\<lambda>a b. 10 powr ((log 10 a + log 10 b) / 2)) (butlast rw) (tl rw);
          self = self\<lparr>r := Some rc\<rparr>;
          tc = map2 (\<lambda>a b. (a + b) / 2) (butlast tw) (tl tw);
          pc = map2 (\<lambda>a b. (a + b) / 2) (butlast pw) (tl pw)
      in case rw of
           [] \<Rightarrow> (Inl IndexError, self)
         | r0 # rs \<Rightarrow>
            if r0 = 0 then
              (case rs of
                 [] \<Rightarrow> (Inl IndexError, self)
               | r1 # rs' \<Rightarrow>
                  set_walls_derived (self\<lparr>r := Some (rc[0 := r1 / 2]), t := Some tc, p := Some pc\<rparr>)
                    (rc[0 := r1 / 2]) tc pc rw tw pw)
            else set_walls_derived (self\<lparr>t := Some tc, p := Some pc\<rparr>) rc tc pc rw tw pw)"

text \<open>Lines 46 to 67: the conversions and the validation, then the rest.\<close>

definition set_walls :: "grid \<Rightarrow> pyval \<Rightarrow> pyval \<Rightarrow> pyval \<Rightarrow> (error + unit) \<times> grid" where
  "set_walls self r_in t_in p_in =
     (let rv = np_array_if_seq r_in;
          tv = np_array_if_seq t_in;
          pv = np_array_if_seq p_in
      in if \<not> is_numpy_array rv \<or> py_ndim rv \<noteq> Some 1
           then (Inl (ValueError (Msg ''r_wall should be a 1-D sequence'')), self)
         else if \<not> is_numpy_array tv \<or> py_ndim tv \<noteq> Some 1
           then (Inl (ValueError (Msg ''t_wall should be a 1-D sequence'')), self)
         else if \<not> is_numpy_array pv \<or> py_ndim pv \<noteq> Some 1
           then (Inl (ValueError (Msg ''p_wall should be a 1-D sequence'')), self)
         else if \<not> monotonically_increasing (py_values rv)
           then (Inl (ValueError (Msg ''r_wall should be monotonically increasing'')), self)
         else if \<not> monotonically_increasing (py_values tv)
           then (Inl (ValueError (Msg ''t_wall should be monotonically increasing'')), self)
         else if \<not> monotonically_increasing (py_values pv)
           then (Inl (ValueError (Msg ''p_wall should be monotonically increasing'')), self)
         else set_walls_centers self (py_values rv) (py_values tv) (py_values pv))"

text \<open>
  The elements of the 1-D array that \<^verbatim>\<open>set_walls\<close> works with, for an argument it
  accepts.
\<close>

definition wall_elems :: "pyval \<Rightarrow> real list" where
  "wall_elems v = py_values (np_array_if_seq v)"



subsection \<open>\<^verbatim>\<open>_check_array_dimensions\<close>\<close>

text \<open>
  The loop over the items of a list: the first item whose shape is not the shape of
  the grid raises, with both shapes in the message.
\<close>

fun check_items :: "int list option \<Rightarrow> ndarray list \<Rightarrow> error + unit" where
  "check_items s [] = Inr ()"
| "check_items s (item # rest) =
     (if Some (map int (nd_shape item)) \<noteq> s
      then Inl (ValueError (Fmt ''Arrays in list do not have the right dimensions: %s instead of %s''
                  (nd_shape item) s))
      else check_items s rest)"

text \<open>
  \<^verbatim>\<open>np.vstack(array).reshape(*shape)\<close> with \<^verbatim>\<open>shape = [len(array)] + list(self.shape)\<close>, on
  arrays that all have the shape of the grid: numpy refuses to stack an empty sequence.
\<close>

definition vstack_reshape :: "int list \<Rightarrow> ndarray list \<Rightarrow> error + ndarray" where
  "vstack_reshape s xs =
     (if xs = [] then Inl (ValueError (Msg ''need at least one array to concatenate''))
      else Inr (NDArray (length xs # map nat s) (concat (map nd_flat xs))))"

text \<open>
  The branch for a list or a tuple. The stacked array is assigned to the local variable
  \<^verbatim>\<open>array\<close> only; the method returns \<^verbatim>\<open>None\<close>. \<^verbatim>\<open>list(self.shape)\<close> raises TypeError
  while the walls are not set.
\<close>

definition check_sequence :: "grid \<Rightarrow> ndarray list \<Rightarrow> (error + unit) \<times> grid" where
  "check_sequence self xs =
     (case check_items (shape self) xs of
        Inl e \<Rightarrow> (Inl e, self)
      | Inr u \<Rightarrow>
         (case shape self of
            None \<Rightarrow> (Inl TypeError, self)
          | Some s \<Rightarrow>
             (case vstack_reshape s xs of
                Inl e \<Rightarrow> (Inl e, self)
              | Inr stacked \<Rightarrow> (Inr (), self))))"

definition check_array_dimensions :: "grid \<Rightarrow> quantity \<Rightarrow> (error + unit) \<times> grid" where
  "check_array_dimensions self array =
     (case array of
        QList xs \<Rightarrow> check_sequence self xs
      | QTuple xs \<Rightarrow> check_sequence self xs
      | QArray a \<Rightarrow>
         (if Some (map int (nd_shape a)) \<noteq> shape self
          then (Inl (ValueError (Fmt ''Array does not have the right dimensions: %s instead of %s''
                      (nd_shape a) (shape self))), self)
          else (Inr (), self))
      | _ \<Rightarrow> (Inl (ValueError (Msg ''Array should be a list or a Numpy array'')), self))"

subsection \<open>\<^verbatim>\<open>read\<close>\<close>

text \<open>
  The container is an HDF5 group: its subgroups \<^verbatim>\<open>Geometry\<close> and \<^verbatim>\<open>Physics\<close> may be
  missing, and indexing a group or an attribute set with a missing key raises KeyError.
\<close>

record geometry_group =
  attrs :: "string \<rightharpoonup> string"
  datasets :: "string \<rightharpoonup> ndarray"

record h5group =
  Geometry :: "geometry_group option"
  Physics :: "(string \<rightharpoonup> ndarray) option"

datatype selector = All | Names "string list"

text \<open>
  Modelled from the spec: the base class \<^verbatim>\<open>FreezableClass\<close> of
  \<^verbatim>\<open>hyperion.util.functions\<close> is not part of the sources at hand; the spec describes it
  as a guard against new attributes after construction and nothing else. The class
  \<^verbatim>\<open>SphericalPolarGrid\<close> defines \<^verbatim>\<open>set_walls\<close>, \<^verbatim>\<open>_check_array_dimensions\<close>, \<^verbatim>\<open>read\<close>,
  \<^verbatim>\<open>write\<close> and \<^verbatim>\<open>get_geometry_id\<close>, and no method \<^verbatim>\<open>set\<close>: looking \<^verbatim>\<open>self.set\<close> up
  raises AttributeError, before the arguments of the call are evaluated.
\<close>

definition self_set :: "grid \<Rightarrow> (error + unit) \<times> grid" where
  "self_set self = (Inl (AttributeError ''set''), self)"

text \<open>
  Lines 207 to 215. What follows the call of \<^verbatim>\<open>self.set\<close> (the comparison of the hashes
  and the loop over the quantities) is not reached.
\<close>

definition read :: "grid \<Rightarrow> h5group \<Rightarrow> selector \<Rightarrow> (error + unit) \<times> grid" where
  "read self grp sel =
     (case Geometry grp of
        None \<Rightarrow> (Inl (KeyError ''Geometry''), self)
      | Some g_geometry \<Rightarrow>
         (case Physics grp of
            None \<Rightarrow> (Inl (KeyError ''Physics''), self)
          | Some g_physics \<Rightarrow>
             (case attrs g_geometry ''grid_type'' of
                None \<Rightarrow> (Inl (KeyError ''grid_type''), self)
              | Some ty \<Rightarrow>
                 if ty \<noteq> ''sph_pol''
                 then (Inl (ValueError (Msg ''Grid is not spherical polar'')), self)
                 else self_set self)))"

text \<open>
  An argument that passes the first three tests of \<^verbatim>\<open>set_walls\<close>: after the conversion
  of lists and tuples it is a numpy array of one dimension.
\<close>

definition accepted :: "pyval \<Rightarrow> bool" where
  "accepted v \<longleftrightarrow> is_numpy_array (np_array_if_seq v) \<and> py_ndim (np_array_if_seq v) = Some 1"


subsection \<open>\<^verbatim>\<open>get_geometry_id\<close>\<close>

text \<open>
  The digest of the three walls, fed to the hash in the order radial, polar, azimuthal;
  successive \<^verbatim>\<open>update\<close> calls hash the concatenation. The hash (\<^verbatim>\<open>hashlib.md5\<close>) and the
  bytes of the buffer of a float array are parameters: neither is code of the grid.
  \<^verbatim>\<open>update(None)\<close> raises TypeError while the walls are not set.
\<close>

definition get_geometry_id ::
  "('b list \<Rightarrow> string) \<Rightarrow> (real list \<Rightarrow> 'b list) \<Rightarrow> grid \<Rightarrow> error + string" where
  "get_geometry_id hexdigest buffer self =
     (case r_wall self of
        None \<Rightarrow> Inl TypeError
      | Some rw \<Rightarrow>
         (case t_wall self of
            None \<Rightarrow> Inl TypeError
          | Some tw \<Rightarrow>
             (case p_wall self of
                None \<Rightarrow> Inl TypeError
              | Some pw \<Rightarrow> Inr (hexdigest (buffer rw @ buffer tw @ buffer pw)))))"

section \<open>Arrays as tabulated functions\<close>












section \<open>The fields that \<^verbatim>\<open>set_walls\<close> derives\<close>


lemma np_zeros4_ok:
  "rw \<noteq> [] \<Longrightarrow> tw \<noteq> [] \<Longrightarrow> pw \<noteq> [] \<Longrightarrow>
   np_zeros4 n (int (length pw) - 1) (int (length tw) - 1) (int (length rw) - 1) =
     Inr (replicate n (replicate (length pw - 1) (replicate (length tw - 1) (replicate (length rw - 1) 0))))"
  by (cases rw; cases tw; cases pw) (simp_all add: np_zeros4_def)

lemma np_zeros4_fails:
  "rw = [] \<or> tw = [] \<or> pw = [] \<Longrightarrow>
   np_zeros4 n (int (length pw) - 1) (int (length tw) - 1) (int (length rw) - 1) =
     Inl (ValueError (Msg ''negative dimensions are not allowed''))"
  by (auto simp add: np_zeros4_def)

lemma derived_ok_iff:
  "fst (set_walls_derived self rc tc pc rw tw pw) = Inr () \<longleftrightarrow> rw \<noteq> [] \<and> tw \<noteq> [] \<and> pw \<noteq> []"
proof (cases "rw \<noteq> [] \<and> tw \<noteq> [] \<and> pw \<noteq> []")
  case True
  then have z: "\<And>n. np_zeros4 n (int (length pw) - 1) (int (length tw) - 1) (int (length rw) - 1) =
     Inr (replicate n (replicate (length pw - 1) (replicate (length tw - 1) (replicate (length rw - 1) 0))))"
    by (simp add: np_zeros4_ok)
  show ?thesis
    unfolding set_walls_derived_def Let_def z
    using True by (simp split: prod.splits)
next
  case False
  then have "rw = [] \<or> tw = [] \<or> pw = []" by simp
  from np_zeros4_fails [OF this] have z: "\<And>n. np_zeros4 n (int (length pw) - 1) (int (length tw) - 1) (int (length rw) - 1) =
     Inl (ValueError (Msg ''negative dimensions are not allowed''))" .
  show ?thesis
    unfolding set_walls_derived_def Let_def z
    using False by (simp split: prod.splits)
qed

lemma centers_ok_iff:
  "fst (set_walls_centers self rw tw pw) = Inr () \<longleftrightarrow>
     rw \<noteq> [] \<and> (hd rw = 0 \<longrightarrow> 2 \<le> length rw) \<and> tw \<noteq> [] \<and> pw \<noteq> []"
  unfolding set_walls_centers_def
  by (simp add: Let_def derived_ok_iff split: list.splits)

lemma derived_quantities:
  "quantities (snd (set_walls_derived self rc tc pc rw tw pw)) = quantities self"
  unfolding set_walls_derived_def
  by (simp add: Let_def split: prod.splits sum.splits)

lemma centers_quantities:
  "quantities (snd (set_walls_centers self rw tw pw)) = quantities self"
  unfolding set_walls_centers_def
  by (simp add: Let_def derived_quantities split: list.splits)

lemma set_walls_quantities:
  "quantities (snd (set_walls self a b c)) = quantities self"
  unfolding set_walls_def
  by (simp add: Let_def centers_quantities)

lemma derived_shape:
  "shape (snd (set_walls_derived self rc tc pc rw tw pw)) = shape self"
  unfolding set_walls_derived_def
  by (simp add: Let_def split: prod.splits sum.splits)

lemma centers_shape:
  "shape (snd (set_walls_centers self rw tw pw)) =
     Some [int (length pw) - 1, int (length tw) - 1, int (length rw) - 1]"
  unfolding set_walls_centers_def
  by (simp add: Let_def derived_shape split: list.splits)

lemma set_walls_ok_iff:
  "fst (set_walls self a b c) = Inr () \<longleftrightarrow>
     accepted a \<and> accepted b \<and> accepted c \<and>
     monotonically_increasing (wall_elems a) \<and> monotonically_increasing (wall_elems b) \<and>
     monotonically_increasing (wall_elems c) \<and>
     wall_elems a \<noteq> [] \<and> (hd (wall_elems a) = 0 \<longrightarrow> 2 \<le> length (wall_elems a)) \<and>
     wall_elems b \<noteq> [] \<and> wall_elems c \<noteq> []"
  unfolding set_walls_def accepted_def wall_elems_def
  by (auto simp add: Let_def centers_ok_iff)

lemma set_walls_ok_eq:
  "fst (set_walls self a b c) = Inr () \<Longrightarrow>
   set_walls self a b c = set_walls_centers self (wall_elems a) (wall_elems b) (wall_elems c)"
  unfolding set_walls_def wall_elems_def
  by (simp add: Let_def split: if_splits)

lemma set_walls_shape:
  assumes "fst (set_walls self a b c) = Inr ()"
  shows "shape (snd (set_walls self a b c)) =
     Some [int (length (wall_elems c)) - 1, int (length (wall_elems b)) - 1,
           int (length (wall_elems a)) - 1]"
  unfolding set_walls_ok_eq [OF assms] by (rule centers_shape)

lemma accepted_array1 [simp]: "accepted (NdArray (array1 xs))"
  by (simp add: accepted_def array1_def ndim_def)

lemma wall_elems_array1 [simp]: "wall_elems (NdArray (array1 xs)) = xs"
  by (simp add: wall_elems_def array1_def)
















lemma midpoints_nth:
  "Suc i < length xs \<Longrightarrow> map2 f (butlast xs) (tl xs) ! i = f (xs ! i) (xs ! Suc i)"
  by (simp add: nth_butlast nth_tl)

lemma midpoints_length: "length (map2 f (butlast xs) (tl xs)) = length xs - 1"
  by simp

lemma set_walls_invalid:
  assumes "\<not> (accepted a \<and> accepted b \<and> accepted c
              \<and> monotonically_increasing (wall_elems a) \<and> monotonically_increasing (wall_elems b)
              \<and> monotonically_increasing (wall_elems c))"
  shows "\<exists>m. set_walls self a b c = (Inl (ValueError (Msg m)), self)"
  using assms unfolding set_walls_def accepted_def wall_elems_def Let_def
  by auto

lemma read_sph_pol:
  assumes "Geometry grp = Some g" "Physics grp = Some ph" "attrs g ''grid_type'' = Some ''sph_pol''"
  shows "read self grp sel = (Inl (AttributeError ''set''), self)"
  using assms by (simp add: read_def self_set_def)

lemma check_items_ok:
  "(\<forall>x \<in> set xs. Some (map int (nd_shape x)) = s) \<Longrightarrow> check_items s xs = Inr ()"
  by (induction xs) simp_all

lemma check_items_fails:
  "\<exists>x \<in> set xs. Some (map int (nd_shape x)) \<noteq> s \<Longrightarrow>
   \<exists>x \<in> set xs. Some (map int (nd_shape x)) \<noteq> s
      \<and> check_items s xs =
          Inl (ValueError (Fmt ''Arrays in list do not have the right dimensions: %s instead of %s''
                 (nd_shape x) s))"
  by (induction xs) auto

lemma check_sequence_ok:
  assumes "xs \<noteq> []" and "\<forall>x \<in> set xs. Some (map int (nd_shape x)) = shape self"
  shows "check_sequence self xs = (Inr (), self)"
proof -
  from assms obtain s where s: "shape self = Some s"
    by (cases xs) (auto dest: sym)
  with assms show ?thesis
    by (simp add: check_sequence_def check_items_ok vstack_reshape_def)
qed

lemma check_sequence_fails:
  assumes "\<exists>x \<in> set xs. Some (map int (nd_shape x)) \<noteq> shape self"
  shows "\<exists>x \<in> set xs. Some (map int (nd_shape x)) \<noteq> shape self
      \<and> check_sequence self xs =
          (Inl (ValueError (Fmt ''Arrays in list do not have the right dimensions: %s instead of %s''
                 (nd_shape x) (shape self))), self)"
proof -
  from check_items_fails [OF assms] obtain x where
    "x \<in> set xs" "Some (map int (nd_shape x)) \<noteq> shape self"
    "check_items (shape self) xs =
          Inl (ValueError (Fmt ''Arrays in list do not have the right dimensions: %s instead of %s''
                 (nd_shape x) (shape self)))"
    by blast
  then show ?thesis
    by (auto simp add: check_sequence_def)
qed

section \<open>The geometry hash\<close>

lemma get_geometry_id_same_walls:
  "r_wall g = r_wall g' \<Longrightarrow> t_wall g = t_wall g' \<Longrightarrow> p_wall g = p_wall g' \<Longrightarrow>
   get_geometry_id hexdigest buffer g = get_geometry_id hexdigest buffer g'"
  unfolding get_geometry_id_def by (simp split: option.splits)

section \<open>Claims\<close>

text \<open>
  Claim C10. Every successful call of \<^verbatim>\<open>set_walls\<close> leaves the mapping of quantities as
  it was, names and values. The stored quantities take no part in the call: it succeeds
  whatever they are, also when the new shape of the grid is not the shape of a stored
  array, so no stored quantity is validated again.
\<close>

theorem set_walls_keeps_quantities:
  assumes "fst (set_walls self a b c) = Inr ()"
  shows "quantities (snd (set_walls self a b c)) = quantities self
       \<and> (\<forall>q. fst (set_walls (self\<lparr>quantities := q\<rparr>) a b c) = Inr ())"
  using assms by (simp add: set_walls_quantities set_walls_ok_iff)

theorem set_walls_keeps_quantities_witness:
  "fst (set_walls (init\<lparr>shape := Some [1, 1, 1],
                        quantities := [''density'' \<mapsto> QArray (NDArray [1, 1, 1] [5])]\<rparr>)
         (NdArray (array1 [1, 2, 3])) (NdArray (array1 [1, 2, 3])) (NdArray (array1 [1, 2, 3]))) = Inr ()
   \<and> quantities (snd (set_walls (init\<lparr>shape := Some [1, 1, 1],
                        quantities := [''density'' \<mapsto> QArray (NDArray [1, 1, 1] [5])]\<rparr>)
         (NdArray (array1 [1, 2, 3])) (NdArray (array1 [1, 2, 3])) (NdArray (array1 [1, 2, 3]))))
       = [''density'' \<mapsto> QArray (NDArray [1, 1, 1] [5])]
   \<and> shape (snd (set_walls (init\<lparr>shape := Some [1, 1, 1],
                        quantities := [''density'' \<mapsto> QArray (NDArray [1, 1, 1] [5])]\<rparr>)
         (NdArray (array1 [1, 2, 3])) (NdArray (array1 [1, 2, 3])) (NdArray (array1 [1, 2, 3]))))
       = Some [2, 2, 2]"
proof -
  let ?g = "init\<lparr>shape := Some [1, 1, 1],
                  quantities := [''density'' \<mapsto> QArray (NDArray [1, 1, 1] [5])]\<rparr>"
  let ?w = "NdArray (array1 [1, 2, 3])"
  have ok: "fst (set_walls ?g ?w ?w ?w) = Inr ()"
    by (simp add: set_walls_ok_iff)
  have sh: "shape (snd (set_walls ?g ?w ?w ?w)) = Some [2, 2, 2]"
    using set_walls_shape [OF ok] by simp
  from set_walls_keeps_quantities [OF ok] ok sh show ?thesis
    by simp
qed









text \<open>
  Claim C7. \<^verbatim>\<open>set_walls\<close> is meant to be atomic: it fails on an invalid input and leaves
  the mesh as it was (lemma \<open>set_walls_invalid\<close>), and otherwise succeeds. The wall array
  \<open>[0.0]\<close> is 1-D and strictly increasing, so it passes the validation; the counts, the
  shape, the walls and \<^verbatim>\<open>self.r\<close> are assigned, and then \<^verbatim>\<open>r_wall[1]\<close> raises IndexError.
  The call fails and the mesh is half written.
\<close>

theorem set_walls_not_atomic:
  "accepted (NdArray (array1 [0])) \<and> monotonically_increasing [0]
   \<and> set_walls init (NdArray (array1 [0])) (NdArray (array1 [0, 1])) (NdArray (array1 [0, 1]))
       = (Inl IndexError,
          init\<lparr>nr := Some 0, nt := Some 1, np := Some 1, shape := Some [1, 1, 0],
               r_wall := Some [0], t_wall := Some [0, 1], p_wall := Some [0, 1], r := Some []\<rparr>)"
  by (simp add: set_walls_def set_walls_centers_def Let_def array1_def ndim_def accepted_def)

theorem set_walls_not_atomic_witness:
  "fst (set_walls init (NdArray (array1 [0])) (NdArray (array1 [0, 1])) (NdArray (array1 [0, 1])))
     = Inl IndexError
   \<and> snd (set_walls init (NdArray (array1 [0])) (NdArray (array1 [0, 1])) (NdArray (array1 [0, 1])))
     \<noteq> init
   \<and> volumes (snd (set_walls init (NdArray (array1 [0])) (NdArray (array1 [0, 1]))
        (NdArray (array1 [0, 1])))) = None"
  using set_walls_not_atomic by (simp add: init_def)

text \<open>
  Claim C5. \<^verbatim>\<open>read\<close> is meant to call \<^verbatim>\<open>set_walls\<close> with the three stored walls and to
  compare the hashes. It calls \<^verbatim>\<open>self.set\<close>, which the class does not have: on a
  container tagged \<^verbatim>\<open>sph_pol\<close>, with both sections and the three walls, \<^verbatim>\<open>read\<close> raises
  AttributeError, sets no walls and compares no hash.
\<close>

theorem read_never_sets_walls:
  "read init
     \<lparr>Geometry = Some \<lparr>attrs = [''grid_type'' \<mapsto> ''sph_pol'', ''geometry'' \<mapsto> ''0123456789abcdef''],
                        datasets = [''Walls 1'' \<mapsto> array1 [0, 1], ''Walls 2'' \<mapsto> array1 [0, 1],
                                    ''Walls 3'' \<mapsto> array1 [0, 1]]\<rparr>,
      Physics = Some Map.empty\<rparr> All
   = (Inl (AttributeError ''set''), init)"
  by (simp add: read_def self_set_def)

text \<open>
  Claim C6, as stated: \<^verbatim>\<open>read\<close> fails with the error for a wrong grid type on every
  container whose geometry section declares another grid type. It does not on a container
  without a \<^verbatim>\<open>Physics\<close> section: \<^verbatim>\<open>group['Physics']\<close> is evaluated before the grid type
  is looked at, and raises KeyError.
\<close>

theorem read_without_physics:
  "attrs \<lparr>attrs = [''grid_type'' \<mapsto> ''cart''], datasets = Map.empty\<rparr> ''grid_type'' = Some ''cart''
   \<and> read init \<lparr>Geometry = Some \<lparr>attrs = [''grid_type'' \<mapsto> ''cart''], datasets = Map.empty\<rparr>,
                  Physics = None\<rparr> All
       = (Inl (KeyError ''Physics''), init)"
  by (simp add: read_def)

text \<open>
  Claim C6, amended. On a container that has a geometry and a physics section, and whose
  geometry section declares a grid type other than \<^verbatim>\<open>sph_pol\<close>, \<^verbatim>\<open>read\<close> raises
  ValueError "Grid is not spherical polar"; the mesh is as it was, and the outcome does
  not depend on the datasets of the geometry section, which are not read.
\<close>

theorem read_wrong_grid_type:
  assumes "Geometry grp = Some g" and "Physics grp = Some ph"
    and "attrs g ''grid_type'' = Some ty" and "ty \<noteq> ''sph_pol''"
  shows "read self grp sel = (Inl (ValueError (Msg ''Grid is not spherical polar'')), self)
       \<and> (\<forall>d. read self (grp\<lparr>Geometry := Some (g\<lparr>datasets := d\<rparr>)\<rparr>) sel
                = (Inl (ValueError (Msg ''Grid is not spherical polar'')), self))"
  using assms by (simp add: read_def)

theorem read_wrong_grid_type_witness:
  "''cart'' \<noteq> ''sph_pol''
   \<and> read init \<lparr>Geometry = Some \<lparr>attrs = [''grid_type'' \<mapsto> ''cart''],
                                   datasets = [''Walls 1'' \<mapsto> array1 [0, 1]]\<rparr>,
                  Physics = Some Map.empty\<rparr> All
     = (Inl (ValueError (Msg ''Grid is not spherical polar'')), init)"
  using read_wrong_grid_type
    [of "\<lparr>Geometry = Some \<lparr>attrs = [''grid_type'' \<mapsto> ''cart''],
                               datasets = [''Walls 1'' \<mapsto> array1 [0, 1]]\<rparr>,
          Physics = Some Map.empty\<rparr>"
        "\<lparr>attrs = [''grid_type'' \<mapsto> ''cart''], datasets = [''Walls 1'' \<mapsto> array1 [0, 1]]\<rparr>"
        Map.empty "''cart''" init All]
  by simp

text \<open>
  Claim C4, as stated: a sequence of arrays that each have the shape of the grid is
  accepted and stored as one stacked array. The empty list is such a sequence, and on a
  grid of shape \<open>(1, 1, 1)\<close> the check of it fails, in \<^verbatim>\<open>np.vstack\<close>, with a message that
  carries no shape; and the check of a list of one array of the right shape succeeds
  and stores nothing.
\<close>

theorem check_array_dimensions_empty_list:
  "shape (snd (set_walls init (NdArray (array1 [1, 2])) (NdArray (array1 [1, 2])) (NdArray (array1 [1, 2]))))
     = Some [1, 1, 1]
   \<and> fst (check_array_dimensions
        (snd (set_walls init (NdArray (array1 [1, 2])) (NdArray (array1 [1, 2])) (NdArray (array1 [1, 2]))))
        (QList []))
     = Inl (ValueError (Msg ''need at least one array to concatenate''))
   \<and> fst (check_array_dimensions
        (snd (set_walls init (NdArray (array1 [1, 2])) (NdArray (array1 [1, 2])) (NdArray (array1 [1, 2]))))
        (QList [NDArray [1, 1, 1] [5]]))
     = Inr ()
   \<and> quantities (snd (check_array_dimensions
        (snd (set_walls init (NdArray (array1 [1, 2])) (NdArray (array1 [1, 2])) (NdArray (array1 [1, 2]))))
        (QList [NDArray [1, 1, 1] [5]])))
     = Map.empty"
proof -
  let ?w = "NdArray (array1 [1, 2])"
  have ok: "fst (set_walls init ?w ?w ?w) = Inr ()"
    by (simp add: set_walls_ok_iff)
  from set_walls_shape [OF ok] have sh: "shape (snd (set_walls init ?w ?w ?w)) = Some [1, 1, 1]"
    by simp
  have q: "quantities (snd (set_walls init ?w ?w ?w)) = Map.empty"
    by (simp add: set_walls_quantities init_def)
  from sh q show ?thesis
    by (simp add: check_array_dimensions_def check_sequence_def vstack_reshape_def)
qed

text \<open>
  Claim C4, amended. \<^verbatim>\<open>_check_array_dimensions\<close> accepts an array whose shape is the
  shape of the grid, and a non-empty list or tuple of arrays that each have that shape;
  for these it builds the array of shape \<open>(k, *shape)\<close> that stacks the \<open>k\<close> items along a
  new leading axis, as a local value. It refuses an array of another shape, and a list or
  tuple with an item of another shape, with a ValueError that carries the offending shape
  and the expected one. In every case the mesh, with its stored quantities, is as it
  was.
\<close>

theorem check_array_dimensions_cases:
  "(Some (map int (nd_shape arr)) = shape self \<longrightarrow>
      check_array_dimensions self (QArray arr) = (Inr (), self))
   \<and> (Some (map int (nd_shape arr)) \<noteq> shape self \<longrightarrow>
      check_array_dimensions self (QArray arr) =
        (Inl (ValueError (Fmt ''Array does not have the right dimensions: %s instead of %s''
               (nd_shape arr) (shape self))), self))
   \<and> (xs \<noteq> [] \<and> (\<forall>x \<in> set xs. Some (map int (nd_shape x)) = shape self) \<longrightarrow>
      check_array_dimensions self (QList xs) = (Inr (), self)
      \<and> check_array_dimensions self (QTuple xs) = (Inr (), self)
      \<and> (\<exists>s stacked. shape self = Some s \<and> vstack_reshape s xs = Inr stacked
            \<and> map int (nd_shape stacked) = int (length xs) # s
            \<and> nd_flat stacked = concat (map nd_flat xs)))
   \<and> ((\<exists>x \<in> set xs. Some (map int (nd_shape x)) \<noteq> shape self) \<longrightarrow>
      (\<exists>x \<in> set xs. Some (map int (nd_shape x)) \<noteq> shape self
         \<and> check_array_dimensions self (QList xs) =
            (Inl (ValueError (Fmt ''Arrays in list do not have the right dimensions: %s instead of %s''
               (nd_shape x) (shape self))), self)
         \<and> check_array_dimensions self (QTuple xs) =
            (Inl (ValueError (Fmt ''Arrays in list do not have the right dimensions: %s instead of %s''
               (nd_shape x) (shape self))), self)))"
proof (intro conjI impI)
  assume "xs \<noteq> [] \<and> (\<forall>x \<in> set xs. Some (map int (nd_shape x)) = shape self)"
  then have ne: "xs \<noteq> []" and al: "\<forall>x \<in> set xs. Some (map int (nd_shape x)) = shape self"
    by simp_all
  from check_sequence_ok [OF ne al]
  show "check_array_dimensions self (QList xs) = (Inr (), self)"
    and "check_array_dimensions self (QTuple xs) = (Inr (), self)"
    by (simp_all add: check_array_dimensions_def)
  from ne al obtain x where "x \<in> set xs" "shape self = Some (map int (nd_shape x))"
    by (cases xs) (auto dest: sym)
  with ne show "\<exists>s stacked. shape self = Some s \<and> vstack_reshape s xs = Inr stacked
            \<and> map int (nd_shape stacked) = int (length xs) # s
            \<and> nd_flat stacked = concat (map nd_flat xs)"
    by (simp add: vstack_reshape_def comp_def)
next
  assume "\<exists>x \<in> set xs. Some (map int (nd_shape x)) \<noteq> shape self"
  from check_sequence_fails [OF this]
  show "\<exists>x \<in> set xs. Some (map int (nd_shape x)) \<noteq> shape self
         \<and> check_array_dimensions self (QList xs) =
            (Inl (ValueError (Fmt ''Arrays in list do not have the right dimensions: %s instead of %s''
               (nd_shape x) (shape self))), self)
         \<and> check_array_dimensions self (QTuple xs) =
            (Inl (ValueError (Fmt ''Arrays in list do not have the right dimensions: %s instead of %s''
               (nd_shape x) (shape self))), self)"
    by (simp add: check_array_dimensions_def)
qed (simp_all add: check_array_dimensions_def)

theorem check_array_dimensions_cases_witness:
  "check_array_dimensions (init\<lparr>shape := Some [2, 1, 1]\<rparr>) (QArray (NDArray [2, 1, 1] [5, 6]))
     = (Inr (), init\<lparr>shape := Some [2, 1, 1]\<rparr>)
   \<and> check_array_dimensions (init\<lparr>shape := Some [2, 1, 1]\<rparr>)
        (QList [NDArray [2, 1, 1] [5, 6], NDArray [2, 1, 1] [7, 8]])
     = (Inr (), init\<lparr>shape := Some [2, 1, 1]\<rparr>)
   \<and> vstack_reshape [2, 1, 1] [NDArray [2, 1, 1] [5, 6], NDArray [2, 1, 1] [7, 8]]
     = Inr (NDArray [2, 2, 1, 1] [5, 6, 7, 8])
   \<and> check_array_dimensions (init\<lparr>shape := Some [2, 1, 1]\<rparr>) (QArray (NDArray [1, 1] [5]))
     = (Inl (ValueError (Fmt ''Array does not have the right dimensions: %s instead of %s''
               [1, 1] (Some [2, 1, 1]))), init\<lparr>shape := Some [2, 1, 1]\<rparr>)
   \<and> check_array_dimensions (init\<lparr>shape := Some [2, 1, 1]\<rparr>)
        (QList [NDArray [2, 1, 1] [5, 6], NDArray [1, 1] [5]])
     = (Inl (ValueError (Fmt ''Arrays in list do not have the right dimensions: %s instead of %s''
               [1, 1] (Some [2, 1, 1]))), init\<lparr>shape := Some [2, 1, 1]\<rparr>)"
  using check_array_dimensions_cases
      [of "NDArray [2, 1, 1] [5, 6]" "init\<lparr>shape := Some [2, 1, 1]\<rparr>"
          "[NDArray [2, 1, 1] [5, 6], NDArray [2, 1, 1] [7, 8]]"]
    check_array_dimensions_cases
      [of "NDArray [1, 1] [5]" "init\<lparr>shape := Some [2, 1, 1]\<rparr>"
          "[NDArray [2, 1, 1] [5, 6], NDArray [1, 1] [5]]"]
  by (simp add: vstack_reshape_def)

end
